theory Spec2Isabelle
  imports Main "HOL-Library.AList"
begin

section \<open>JavaScript values, errors and completions\<close>

text \<open>
  The collaborator registry (\<^verbatim>\<open>src/lib/collaborators.ts\<close>) keeps the collaborator list of a
  note as JSON text in the column \<^verbatim>\<open>collaborators\<close> of the table \<^verbatim>\<open>notes\<close>. Every operation
  fetches the text, decodes it, works on the decoded value and writes the re-encoded value
  back. The decoded value is whatever the stored text denotes, so the model works on JSON
  values rather than on a typed list: an object is the list of its own properties in their
  order, and a property that is absent reads as \<^verbatim>\<open>undefined\<close> (\<open>None\<close>). The registry never
  looks into a number, so a number carries an integer only.
\<close>

datatype js_error = SyntaxError | TypeError | PostgrestError string | OtherError string

datatype jsval =
    JNull
  | JBool bool
  | JNum int
  | JStr string
  | JArr "jsval list"
  | JObj "(string \<times> jsval) list"

text \<open>How a function body ends: with a \<^verbatim>\<open>return\<close> or with an exception that leaves it.\<close>

datatype 'a completion = Returns 'a | Throws js_error

text \<open>
  \<^verbatim>\<open>c.user_id\<close> and \<^verbatim>\<open>c.email\<close> on a decoded value \<open>c\<close>: reading a property of \<^verbatim>\<open>null\<close> raises a
  TypeError, an object yields the property or \<^verbatim>\<open>undefined\<close>, and numbers, booleans, strings
  and arrays have no property of either name.
\<close>

fun get_prop :: "jsval \<Rightarrow> string \<Rightarrow> js_error + jsval option" where
  "get_prop JNull k = Inl TypeError"
| "get_prop (JObj ps) k = Inr (map_of ps k)"
| "get_prop (JBool b) k = Inr None"
| "get_prop (JNum n) k = Inr None"
| "get_prop (JStr s) k = Inr None"
| "get_prop (JArr xs) k = Inr None"

text \<open>
  \<^verbatim>\<open>===\<close> between a property of a decoded entry and a property of the caller's object.
  Primitives are compared by value and \<^verbatim>\<open>undefined === undefined\<close> holds; an array or object
  decoded from storage is never the same object as one the caller holds.
\<close>

fun is_primitive :: "jsval \<Rightarrow> bool" where
  "is_primitive (JArr xs) = False"
| "is_primitive (JObj ps) = False"
| "is_primitive v = True"

fun strict_eq :: "jsval option \<Rightarrow> jsval option \<Rightarrow> bool" where
  "strict_eq None None = True"
| "strict_eq (Some x) (Some y) = (is_primitive x \<and> x = y)"
| "strict_eq a b = False"

text \<open>
  The array methods \<^verbatim>\<open>some\<close>, \<^verbatim>\<open>filter\<close> and \<^verbatim>\<open>map\<close> with a callback that may raise: the
  elements are visited from the left, \<^verbatim>\<open>some\<close> stops at the first hit, and an exception of
  the callback ends the traversal.
\<close>

fun some_js :: "('a \<Rightarrow> js_error + bool) \<Rightarrow> 'a list \<Rightarrow> js_error + bool" where
  "some_js f [] = Inr False"
| "some_js f (x # xs) =
     (case f x of
        Inl e \<Rightarrow> Inl e
      | Inr b \<Rightarrow> if b then Inr True else some_js f xs)"

fun filter_js :: "('a \<Rightarrow> js_error + bool) \<Rightarrow> 'a list \<Rightarrow> js_error + 'a list" where
  "filter_js f [] = Inr []"
| "filter_js f (x # xs) =
     (case f x of
        Inl e \<Rightarrow> Inl e
      | Inr b \<Rightarrow>
          (case filter_js f xs of
             Inl e \<Rightarrow> Inl e
           | Inr ys \<Rightarrow> Inr (if b then x # ys else ys)))"

fun map_js :: "('a \<Rightarrow> js_error + 'b) \<Rightarrow> 'a list \<Rightarrow> js_error + 'b list" where
  "map_js f [] = Inr []"
| "map_js f (x # xs) =
     (case f x of
        Inl e \<Rightarrow> Inl e
      | Inr y \<Rightarrow>
          (case map_js f xs of
             Inl e \<Rightarrow> Inl e
           | Inr ys \<Rightarrow> Inr (y # ys)))"

text \<open>
  Calling an array method on the decoded value: only an array has one; on anything else the
  call raises a TypeError.
\<close>

fun as_array :: "jsval \<Rightarrow> js_error + jsval list" where
  "as_array (JArr xs) = Inr xs"
| "as_array v = Inl TypeError"

section \<open>The environment of the registry\<close>

text \<open>
  \<^verbatim>\<open>JSON.parse\<close> and \<^verbatim>\<open>JSON.stringify\<close> belong to the JavaScript runtime. The operations take
  them as parameters; each theorem states which law of the pair it relies on.
\<close>

record json =
  JSON_parse :: "string \<Rightarrow> js_error + jsval"
  JSON_stringify :: "jsval \<Rightarrow> string"

text \<open>
  The storage client. A request either rejects (the \<^verbatim>\<open>await\<close> raises) or settles with the
  pair \<^verbatim>\<open>{ data, error }\<close>. \<open>select_single db col id\<close> is
  \<^verbatim>\<open>from('notes').select(col).eq('id', id).single()\<close>, whose data is the selected column of
  the row (its value \<open>None\<close> for SQL NULL) or \<^verbatim>\<open>null\<close>; \<open>update_eq db col v id\<close> is
  \<^verbatim>\<open>from('notes').update({ col: v }).eq('id', id)\<close> and also yields the database afterwards.
\<close>

datatype column = Collaborators | Sharing_token

datatype 'a reply = Rejected js_error | Settled "'a option" "js_error option"

record 'db supabase =
  select_single :: "'db \<Rightarrow> column \<Rightarrow> string \<Rightarrow> (string option) reply"
  update_eq :: "'db \<Rightarrow> column \<Rightarrow> string \<Rightarrow> string \<Rightarrow> 'db \<times> unit reply"

section \<open>The registry operations\<close>

subsection \<open>inviteCollaborator\<close>

text \<open>The callback of \<^verbatim>\<open>some\<close>: same \<^verbatim>\<open>user_id\<close> or same \<^verbatim>\<open>email\<close> as the invited collaborator.\<close>

definition same_identity :: "(string \<times> jsval) list \<Rightarrow> jsval \<Rightarrow> js_error + bool" where
  "same_identity collaborator c =
     (case get_prop c ''user_id'' of
        Inl e \<Rightarrow> Inl e
      | Inr uid \<Rightarrow>
          if strict_eq uid (map_of collaborator ''user_id'') then Inr True
          else (case get_prop c ''email'' of
                  Inl e \<Rightarrow> Inl e
                | Inr em \<Rightarrow> Inr (strict_eq em (map_of collaborator ''email''))))"

text \<open>
  \<^verbatim>\<open>noteData?.collaborators ? JSON.parse(noteData.collaborators) : []\<close>: a missing row, a NULL
  column and the empty text all stand for the empty list.
\<close>

definition existing_or_empty :: "json \<Rightarrow> string option option \<Rightarrow> js_error + jsval" where
  "existing_or_empty js noteData =
     (case noteData of
        None \<Rightarrow> Inr (JArr [])
      | Some None \<Rightarrow> Inr (JArr [])
      | Some (Some text) \<Rightarrow> if text = [] then Inr (JArr []) else JSON_parse js text)"

text \<open>The object \<^verbatim>\<open>{ ...collaborator, joined_at: new Date().toISOString() }\<close>.\<close>

definition newCollaborator :: "string \<Rightarrow> (string \<times> jsval) list \<Rightarrow> jsval" where
  "newCollaborator now collaborator = JObj (AList.update ''joined_at'' (JStr now) collaborator)"

definition invite_try ::
  "'db supabase \<Rightarrow> json \<Rightarrow> string \<Rightarrow> 'db \<Rightarrow> string \<Rightarrow> (string \<times> jsval) list
     \<Rightarrow> bool completion \<times> 'db" where
  "invite_try client js now db noteId collaborator =
     (case select_single client db Collaborators noteId of
        Rejected e \<Rightarrow> (Throws e, db)
      | Settled noteData fetchError \<Rightarrow>
          (case fetchError of
             Some e \<Rightarrow> (Returns False, db)
           | None \<Rightarrow>
               (case existing_or_empty js noteData of
                  Inl e \<Rightarrow> (Throws e, db)
                | Inr existingCollaborators \<Rightarrow>
                    (case as_array existingCollaborators of
                       Inl e \<Rightarrow> (Throws e, db)
                     | Inr entries \<Rightarrow>
                         (case some_js (same_identity collaborator) entries of
                            Inl e \<Rightarrow> (Throws e, db)
                          | Inr collaboratorExists \<Rightarrow>
                              if collaboratorExists then (Returns False, db)
                              else
                                (let updatedCollaborators =
                                       JArr (entries @ [newCollaborator now collaborator])
                                 in case update_eq client db Collaborators
                                           (JSON_stringify js updatedCollaborators) noteId of
                                      (db', Rejected e) \<Rightarrow> (Throws e, db')
                                    | (db', Settled d (Some e)) \<Rightarrow> (Returns False, db')
                                    | (db', Settled d None) \<Rightarrow> (Returns True, db')))))))"

text \<open>The \<^verbatim>\<open>catch\<close> block of the boolean operations: log and return \<^verbatim>\<open>false\<close>.\<close>

fun catch_false :: "bool completion \<times> 'db \<Rightarrow> bool completion \<times> 'db" where
  "catch_false (Returns b, db) = (Returns b, db)"
| "catch_false (Throws e, db) = (Returns False, db)"

definition inviteCollaborator ::
  "'db supabase \<Rightarrow> json \<Rightarrow> string \<Rightarrow> 'db \<Rightarrow> string \<Rightarrow> (string \<times> jsval) list
     \<Rightarrow> bool completion \<times> 'db" where
  "inviteCollaborator client js now db noteId collaborator =
     catch_false (invite_try client js now db noteId collaborator)"

subsection \<open>generateShareLink and validateShareToken\<close>

text \<open>
  \<open>uuid\<close> is the outcome of \<^verbatim>\<open>crypto.randomUUID()\<close> (the call raises where the function is
  not available) and \<open>origin\<close> is \<^verbatim>\<open>window.location.origin\<close>. The result is the pair
  \<^verbatim>\<open>{ url, error }\<close>.
\<close>

definition generate_try ::
  "'db supabase \<Rightarrow> js_error + string \<Rightarrow> string \<Rightarrow> 'db \<Rightarrow> string
     \<Rightarrow> (string option \<times> js_error option) completion \<times> 'db" where
  "generate_try client uuid origin db noteId =
     (case uuid of
        Inl e \<Rightarrow> (Throws e, db)
      | Inr token \<Rightarrow>
          (case update_eq client db Sharing_token token noteId of
             (db', Rejected e) \<Rightarrow> (Throws e, db')
           | (db', Settled d (Some updateError)) \<Rightarrow> (Throws updateError, db')
           | (db', Settled d None) \<Rightarrow>
               (let shareUrl = origin @ ''/share/'' @ noteId @ ''?token='' @ token
                in (Returns (Some shareUrl, None), db'))))"

fun catch_link ::
  "(string option \<times> js_error option) completion \<times> 'db
     \<Rightarrow> (string option \<times> js_error option) completion \<times> 'db" where
  "catch_link (Returns r, db) = (Returns r, db)"
| "catch_link (Throws e, db) = (Returns (None, Some e), db)"

definition generateShareLink ::
  "'db supabase \<Rightarrow> js_error + string \<Rightarrow> string \<Rightarrow> 'db \<Rightarrow> string
     \<Rightarrow> (string option \<times> js_error option) completion \<times> 'db" where
  "generateShareLink client uuid origin db noteId =
     catch_link (generate_try client uuid origin db noteId)"

definition validate_try :: "'db supabase \<Rightarrow> 'db \<Rightarrow> string \<Rightarrow> string \<Rightarrow> bool completion \<times> 'db" where
  "validate_try client db noteId token =
     (case select_single client db Sharing_token noteId of
        Rejected e \<Rightarrow> (Throws e, db)
      | Settled data (Some error) \<Rightarrow> (Throws error, db)
      | Settled None None \<Rightarrow> (Throws TypeError, db)
      | Settled (Some stored) None \<Rightarrow> (Returns (stored = Some token), db))"

definition validateShareToken :: "'db supabase \<Rightarrow> 'db \<Rightarrow> string \<Rightarrow> string \<Rightarrow> bool completion \<times> 'db" where
  "validateShareToken client db noteId token = catch_false (validate_try client db noteId token)"

subsection \<open>removeCollaborator and updateCollaboratorPermission\<close>

text \<open>
  \<^verbatim>\<open>noteData.collaborators ? JSON.parse(noteData.collaborators) : []\<close>: unlike the invitation,
  these two read the column without \<^verbatim>\<open>?.\<close>, so a \<^verbatim>\<open>null\<close> row raises a TypeError.
\<close>

definition existing_of_row :: "json \<Rightarrow> string option option \<Rightarrow> js_error + jsval" where
  "existing_of_row js noteData =
     (case noteData of
        None \<Rightarrow> Inl TypeError
      | Some None \<Rightarrow> Inr (JArr [])
      | Some (Some text) \<Rightarrow> if text = [] then Inr (JArr []) else JSON_parse js text)"

text \<open>The callback of \<^verbatim>\<open>filter\<close>: \<^verbatim>\<open>c.user_id !== userId\<close>.\<close>

definition other_user :: "string \<Rightarrow> jsval \<Rightarrow> js_error + bool" where
  "other_user userId c =
     (case get_prop c ''user_id'' of
        Inl e \<Rightarrow> Inl e
      | Inr uid \<Rightarrow> Inr (\<not> strict_eq uid (Some (JStr userId))))"

definition remove_try ::
  "'db supabase \<Rightarrow> json \<Rightarrow> 'db \<Rightarrow> string \<Rightarrow> string \<Rightarrow> bool completion \<times> 'db" where
  "remove_try client js db noteId userId =
     (case select_single client db Collaborators noteId of
        Rejected e \<Rightarrow> (Throws e, db)
      | Settled noteData fetchError \<Rightarrow>
          (case fetchError of
             Some e \<Rightarrow> (Returns False, db)
           | None \<Rightarrow>
               (case existing_of_row js noteData of
                  Inl e \<Rightarrow> (Throws e, db)
                | Inr existingCollaborators \<Rightarrow>
                    (case as_array existingCollaborators of
                       Inl e \<Rightarrow> (Throws e, db)
                     | Inr entries \<Rightarrow>
                         (case filter_js (other_user userId) entries of
                            Inl e \<Rightarrow> (Throws e, db)
                          | Inr updatedCollaborators \<Rightarrow>
                              (case update_eq client db Collaborators
                                      (JSON_stringify js (JArr updatedCollaborators)) noteId of
                                 (db', Rejected e) \<Rightarrow> (Throws e, db')
                               | (db', Settled d (Some e)) \<Rightarrow> (Returns False, db')
                               | (db', Settled d None) \<Rightarrow> (Returns True, db')))))))"

definition removeCollaborator ::
  "'db supabase \<Rightarrow> json \<Rightarrow> 'db \<Rightarrow> string \<Rightarrow> string \<Rightarrow> bool completion \<times> 'db" where
  "removeCollaborator client js db noteId userId =
     catch_false (remove_try client js db noteId userId)"

datatype permission = View | Edit

fun permission_text :: "permission \<Rightarrow> string" where
  "permission_text View = ''view''"
| "permission_text Edit = ''edit''"

text \<open>
  The callback of \<^verbatim>\<open>map\<close>: \<^verbatim>\<open>c.user_id === userId ? { ...c, permission } : c\<close>. Only an
  object can have a \<^verbatim>\<open>user_id\<close> equal to the string \<open>userId\<close>; the spread copies its own
  properties in their order, and \<^verbatim>\<open>permission\<close> keeps its place when the object has it and
  is added last otherwise.
\<close>

definition set_permission :: "string \<Rightarrow> permission \<Rightarrow> jsval \<Rightarrow> js_error + jsval" where
  "set_permission userId p c =
     (case c of
        JNull \<Rightarrow> Inl TypeError
      | JObj ps \<Rightarrow>
          Inr (if strict_eq (map_of ps ''user_id'') (Some (JStr userId))
               then JObj (AList.update ''permission'' (JStr (permission_text p)) ps)
               else c)
      | _ \<Rightarrow> Inr c)"

definition update_permission_try ::
  "'db supabase \<Rightarrow> json \<Rightarrow> 'db \<Rightarrow> string \<Rightarrow> string \<Rightarrow> permission \<Rightarrow> bool completion \<times> 'db" where
  "update_permission_try client js db noteId userId p =
     (case select_single client db Collaborators noteId of
        Rejected e \<Rightarrow> (Throws e, db)
      | Settled noteData fetchError \<Rightarrow>
          (case fetchError of
             Some e \<Rightarrow> (Returns False, db)
           | None \<Rightarrow>
               (case existing_of_row js noteData of
                  Inl e \<Rightarrow> (Throws e, db)
                | Inr existingCollaborators \<Rightarrow>
                    (case as_array existingCollaborators of
                       Inl e \<Rightarrow> (Throws e, db)
                     | Inr entries \<Rightarrow>
                         (case map_js (set_permission userId p) entries of
                            Inl e \<Rightarrow> (Throws e, db)
                          | Inr updatedCollaborators \<Rightarrow>
                              (case update_eq client db Collaborators
                                      (JSON_stringify js (JArr updatedCollaborators)) noteId of
                                 (db', Rejected e) \<Rightarrow> (Throws e, db')
                               | (db', Settled d (Some e)) \<Rightarrow> (Returns False, db')
                               | (db', Settled d None) \<Rightarrow> (Returns True, db')))))))"

definition updateCollaboratorPermission ::
  "'db supabase \<Rightarrow> json \<Rightarrow> 'db \<Rightarrow> string \<Rightarrow> string \<Rightarrow> permission \<Rightarrow> bool completion \<times> 'db" where
  "updateCollaboratorPermission client js db noteId userId p =
     catch_false (update_permission_try client js db noteId userId p)"

section \<open>The notes table in memory\<close>

text \<open>
  Modelled from the spec: the storage collaborator behind \<^verbatim>\<open>@/integrations/supabase/client\<close>
  is not part of the sources. A store maps the id of a note to its row, of which the registry
  uses two columns: the collaborator list as the text the registry reads and writes, and the
  sharing token; NULL is \<open>None\<close>.
\<close>

record notes_row =
  collaborators :: "string option"
  sharing_token :: "string option"

type_synonym store = "string \<rightharpoonup> notes_row"

fun column_value :: "column \<Rightarrow> notes_row \<Rightarrow> string option" where
  "column_value Collaborators r = collaborators r"
| "column_value Sharing_token r = sharing_token r"

fun set_column :: "column \<Rightarrow> string \<Rightarrow> notes_row \<Rightarrow> notes_row" where
  "set_column Collaborators v r = r\<lparr>collaborators := Some v\<rparr>"
| "set_column Sharing_token v r = r\<lparr>sharing_token := Some v\<rparr>"

text \<open>
  Modelled from the spec: fetch-by-id of the storage collaborator, which is not part of the
  sources. It returns the one record, or a not-found signal: \<^verbatim>\<open>single()\<close> settles with an
  error and no data when no row has the id.
\<close>

definition memory_select :: "store \<Rightarrow> column \<Rightarrow> string \<Rightarrow> (string option) reply" where
  "memory_select db col noteId =
     (case db noteId of
        None \<Rightarrow> Settled None (Some (PostgrestError ''PGRST116''))
      | Some r \<Rightarrow> Settled (Some (column_value col r)) None)"

text \<open>
  Modelled from the spec: update-by-id of the storage collaborator with a partial field set,
  which is not part of the sources. An update whose filter matches no row changes nothing and
  settles without an error, as an SQL UPDATE that matches no row does.
\<close>

definition memory_update :: "store \<Rightarrow> column \<Rightarrow> string \<Rightarrow> string \<Rightarrow> store \<times> unit reply" where
  "memory_update db col v noteId =
     (case db noteId of
        None \<Rightarrow> (db, Settled None None)
      | Some r \<Rightarrow> (db(noteId \<mapsto> set_column col v r), Settled None None))"

definition memory :: "store supabase" where
  "memory = \<lparr>select_single = memory_select, update_eq = memory_update\<rparr>"


section \<open>A JSON codec to run the operations\<close>

text \<open>
  To run the operations on concrete stores: the compact text of a JSON value as
  \<^verbatim>\<open>JSON.stringify\<close> writes it (no white space, properties in their order), and a decoder
  that knows finitely many JSON texts, each with the value it denotes, and raises a
  SyntaxError on any other text.
\<close>

function decimal :: "nat \<Rightarrow> string" where
  "decimal n =
     (if n < 10 then [''0123456789'' ! n]
      else decimal (n div 10) @ [''0123456789'' ! (n mod 10)])"
  by pat_completeness auto
termination
  by (relation "measure id") auto

definition quote :: "string \<Rightarrow> string" where
  "quote s =
     [CHR 0x22] @
     concat (map (\<lambda>c. if c = CHR 0x22 \<or> c = CHR 0x5C then [CHR 0x5C, c] else [c]) s) @
     [CHR 0x22]"

fun join :: "string \<Rightarrow> string list \<Rightarrow> string" where
  "join sep [] = []"
| "join sep [x] = x"
| "join sep (x # y # ys) = x @ sep @ join sep (y # ys)"

fun compact_stringify :: "jsval \<Rightarrow> string" where
  "compact_stringify JNull = ''null''"
| "compact_stringify (JBool b) = (if b then ''true'' else ''false'')"
| "compact_stringify (JNum n) = (if n < 0 then ''-'' @ decimal (nat (- n)) else decimal (nat n))"
| "compact_stringify (JStr s) = quote s"
| "compact_stringify (JArr xs) = ''['' @ join '','' (map compact_stringify xs) @ '']''"
| "compact_stringify (JObj ps) =
     ''{'' @ join '','' (map (\<lambda>(k, v). quote k @ '':'' @ compact_stringify v) ps) @ ''}''"

definition parse_table :: "(string \<times> jsval) list \<Rightarrow> string \<Rightarrow> js_error + jsval" where
  "parse_table table text =
     (case map_of table text of
        None \<Rightarrow> Inl SyntaxError
      | Some v \<Rightarrow> Inr v)"

definition json_table :: "(string \<times> jsval) list \<Rightarrow> json" where
  "json_table table = \<lparr>JSON_parse = parse_table table, JSON_stringify = compact_stringify\<rparr>"

text \<open>A storage client whose every request rejects.\<close>

definition unreachable :: "'db supabase" where
  "unreachable =
     \<lparr>select_single = (\<lambda>db col noteId. Rejected (OtherError ''Failed to fetch'')),
      update_eq = (\<lambda>db col v noteId. (db, Rejected (OtherError ''Failed to fetch'')))\<rparr>"

section \<open>Row-level security of note entries\<close>

text \<open>
  The migration \<^verbatim>\<open>20250130053659_bold_lab.sql\<close> declares the tables \<^verbatim>\<open>notes\<close> and
  \<^verbatim>\<open>note_entries\<close> and their policies. Here \<^verbatim>\<open>collaborators\<close> is the \<^verbatim>\<open>jsonb\<close> column of the
  migration, taken as NULL or an array of JSON values, the values for which
  \<^verbatim>\<open>jsonb_array_elements\<close> yields rows. \<^verbatim>\<open>notes.user_id\<close> and \<^verbatim>\<open>note_entries.note_id\<close> are
  nullable, and a comparison with NULL is not true.
\<close>

record notes_tuple =
  notes_id :: string
  notes_user_id :: "string option"
  notes_collaborators :: "jsval list option"

record note_entries_tuple =
  note_entries_id :: string
  note_entries_note_id :: "string option"

text \<open>
  \<^verbatim>\<open>jsonb_array_elements\<close> yields no row for NULL. \<^verbatim>\<open>c->>'key'\<close> is the text of a field of an
  object: NULL when \<open>c\<close> is not an object or the field is absent or JSON null, the string
  itself for a string, and the text \<open>jsonb_out\<close> prints for any other value.
\<close>

fun jsonb_array_elements :: "jsval list option \<Rightarrow> jsval list" where
  "jsonb_array_elements None = []"
| "jsonb_array_elements (Some xs) = xs"

fun jsonb_text :: "(jsval \<Rightarrow> string) \<Rightarrow> jsval \<Rightarrow> string option" where
  "jsonb_text jsonb_out JNull = None"
| "jsonb_text jsonb_out (JStr s) = Some s"
| "jsonb_text jsonb_out v = Some (jsonb_out v)"

fun field_text :: "(jsval \<Rightarrow> string) \<Rightarrow> jsval \<Rightarrow> string \<Rightarrow> string option" where
  "field_text jsonb_out (JObj ps) key =
     (case map_of ps key of
        None \<Rightarrow> None
      | Some v \<Rightarrow> jsonb_text jsonb_out v)"
| "field_text jsonb_out c key = None"

text \<open>
  The two sub-selects over the collaborators of a note: the caller is listed, and the caller
  is listed with \<^verbatim>\<open>permission = 'edit'\<close>.
\<close>

definition listed :: "(jsval \<Rightarrow> string) \<Rightarrow> string \<Rightarrow> notes_tuple \<Rightarrow> bool" where
  "listed jsonb_out uid n =
     list_ex (\<lambda>c. field_text jsonb_out c ''user_id'' = Some uid)
       (jsonb_array_elements (notes_collaborators n))"

definition listed_edit :: "(jsval \<Rightarrow> string) \<Rightarrow> string \<Rightarrow> notes_tuple \<Rightarrow> bool" where
  "listed_edit jsonb_out uid n =
     list_ex (\<lambda>c. field_text jsonb_out c ''user_id'' = Some uid
                 \<and> field_text jsonb_out c ''permission'' = Some ''edit'')
       (jsonb_array_elements (notes_collaborators n))"

text \<open>
  Policy "Users can view their own notes or notes they collaborate on" (\<^verbatim>\<open>notes\<close>, SELECT).
  A sub-select on \<^verbatim>\<open>notes\<close> inside a policy of \<^verbatim>\<open>note_entries\<close> runs as the caller, so it
  ranges over the notes this policy lets the caller see.
\<close>

definition users_can_view_notes :: "(jsval \<Rightarrow> string) \<Rightarrow> string \<Rightarrow> notes_tuple \<Rightarrow> bool" where
  "users_can_view_notes jsonb_out uid n \<longleftrightarrow> notes_user_id n = Some uid \<or> listed jsonb_out uid n"

definition visible_notes :: "(jsval \<Rightarrow> string) \<Rightarrow> string \<Rightarrow> notes_tuple list \<Rightarrow> notes_tuple list" where
  "visible_notes jsonb_out uid notes = filter (users_can_view_notes jsonb_out uid) notes"

text \<open>
  Policy "Users can update entries of their notes or editable notes" (\<^verbatim>\<open>note_entries\<close>,
  UPDATE).
\<close>

definition users_can_update_entries ::
  "(jsval \<Rightarrow> string) \<Rightarrow> notes_tuple list \<Rightarrow> string \<Rightarrow> note_entries_tuple \<Rightarrow> bool" where
  "users_can_update_entries jsonb_out notes uid entry =
     list_ex (\<lambda>n. Some (notes_id n) = note_entries_note_id entry
                 \<and> (notes_user_id n = Some uid \<or> listed_edit jsonb_out uid n))
       (visible_notes jsonb_out uid notes)"

text \<open>Policy "Users can delete entries of their notes" (\<^verbatim>\<open>note_entries\<close>, DELETE).\<close>

definition users_can_delete_entries ::
  "(jsval \<Rightarrow> string) \<Rightarrow> notes_tuple list \<Rightarrow> string \<Rightarrow> note_entries_tuple \<Rightarrow> bool" where
  "users_can_delete_entries jsonb_out notes uid entry =
     list_ex (\<lambda>n. Some (notes_id n) = note_entries_note_id entry \<and> notes_user_id n = Some uid)
       (visible_notes jsonb_out uid notes)"

text \<open>The parent note of an entry: the row of \<^verbatim>\<open>notes\<close> that \<^verbatim>\<open>note_id\<close> references.\<close>

definition parent_note :: "notes_tuple list \<Rightarrow> note_entries_tuple \<Rightarrow> notes_tuple option" where
  "parent_note notes entry = find (\<lambda>n. Some (notes_id n) = note_entries_note_id entry) notes"

section \<open>Failing storage and malformed data\<close>

text \<open>
  A fetch or a write has failed when the request rejects or settles with an error. A stored
  text is malformed when \<^verbatim>\<open>JSON.parse\<close> raises on it, or it denotes something that is not an
  array, or an array with a \<^verbatim>\<open>null\<close> element.
\<close>

definition fetch_failed :: "'db supabase \<Rightarrow> 'db \<Rightarrow> column \<Rightarrow> string \<Rightarrow> bool" where
  "fetch_failed client db col noteId =
     (case select_single client db col noteId of
        Rejected e \<Rightarrow> True
      | Settled d err \<Rightarrow> err \<noteq> None)"

definition write_failed :: "'db supabase \<Rightarrow> 'db \<Rightarrow> column \<Rightarrow> string \<Rightarrow> string \<Rightarrow> bool" where
  "write_failed client db col v noteId =
     (case snd (update_eq client db col v noteId) of
        Rejected e \<Rightarrow> True
      | Settled d err \<Rightarrow> err \<noteq> None)"

definition malformed :: "json \<Rightarrow> string \<Rightarrow> bool" where
  "malformed js text =
     (case JSON_parse js text of
        Inl e \<Rightarrow> True
      | Inr (JArr xs) \<Rightarrow> JNull \<in> set xs
      | Inr v \<Rightarrow> True)"

section \<open>Example data\<close>

text \<open>
  The collaborators of Scenario A of the specification, as the caller passes them and as
  they are stored, and a collaborator invited without an email address.
\<close>

abbreviation (input) example_bob :: "(string \<times> jsval) list" where
  "example_bob \<equiv>
     [(''user_id'', JStr ''bob''), (''email'', JStr ''bob@x.com''), (''permission'', JStr ''view'')]"


abbreviation (input) example_dave :: "(string \<times> jsval) list" where
  "example_dave \<equiv> [(''user_id'', JStr ''dave''), (''permission'', JStr ''view'')]"

abbreviation (input) stored_bob :: jsval where
  "stored_bob \<equiv>
     JObj [(''user_id'', JStr ''bob''), (''email'', JStr ''bob@x.com''),
           (''permission'', JStr ''view''), (''joined_at'', JStr ''2025-01-30T05:36:59.000Z'')]"

abbreviation (input) stored_bob_edit :: jsval where
  "stored_bob_edit \<equiv>
     JObj [(''user_id'', JStr ''bob''), (''email'', JStr ''bob@x.com''),
           (''permission'', JStr ''edit''), (''joined_at'', JStr ''2025-01-30T05:36:59.000Z'')]"

abbreviation (input) stored_carol :: jsval where
  "stored_carol \<equiv>
     JObj [(''user_id'', JStr ''carol''), (''permission'', JStr ''edit''),
           (''joined_at'', JStr ''2025-01-30T05:40:00.000Z'')]"

abbreviation (input) text_of :: "jsval \<Rightarrow> string \<times> jsval" where
  "text_of v \<equiv> (compact_stringify v, v)"

abbreviation (input) note_row :: "string option \<Rightarrow> notes_row" where
  "note_row text \<equiv> \<lparr>collaborators = text, sharing_token = None\<rparr>"

abbreviation (input) alice_note :: notes_tuple where
  "alice_note \<equiv>
     \<lparr>notes_id = ''n1'', notes_user_id = Some ''alice'',
      notes_collaborators =
        Some [JObj [(''user_id'', JStr ''bob''), (''permission'', JStr ''edit'')]]\<rparr>"

abbreviation (input) alice_entry :: note_entries_tuple where
  "alice_entry \<equiv> \<lparr>note_entries_id = ''e1'', note_entries_note_id = Some ''n1''\<rparr>"

section \<open>Array traversals and entries\<close>

lemma strict_eq_JStr [simp]: "strict_eq a (Some (JStr s)) \<longleftrightarrow> a = Some (JStr s)"
  by (cases a) auto

lemma some_js_hit: "c \<in> set xs \<Longrightarrow> f c = Inr True \<Longrightarrow> some_js f xs \<noteq> Inr False"
  by (induction xs) (auto split: sum.splits)

lemma some_js_null: "JNull \<in> set xs \<Longrightarrow> some_js (same_identity collaborator) xs \<noteq> Inr False"
  by (induction xs) (auto simp: same_identity_def split: sum.splits)

lemma filter_js_all: "\<forall>c\<in>set xs. f c = Inr True \<Longrightarrow> filter_js f xs = Inr xs"
  by (induction xs) auto

lemma filter_js_null: "JNull \<in> set xs \<Longrightarrow> \<exists>e. filter_js (other_user userId) xs = Inl e"
  by (induction xs) (auto simp: other_user_def split: sum.splits)

lemma map_js_null: "JNull \<in> set xs \<Longrightarrow> \<exists>e. map_js (set_permission userId p) xs = Inl e"
  by (induction xs) (auto simp: set_permission_def split: sum.splits)

lemma map_js_pointwise:
  "\<forall>c\<in>set xs. \<exists>y. f c = Inr y \<Longrightarrow>
   \<exists>ys. map_js f xs = Inr ys \<and> length ys = length xs \<and> (\<forall>i<length xs. f (xs ! i) = Inr (ys ! i))"
proof (induction xs)
  case Nil
  then show ?case by simp
next
  case (Cons x xs)
  then obtain y where y: "f x = Inr y" by auto
  from Cons obtain ys where ys: "map_js f xs = Inr ys" "length ys = length xs"
    "\<forall>i<length xs. f (xs ! i) = Inr (ys ! i)" by auto
  have "\<forall>i<length (x # xs). f ((x # xs) ! i) = Inr ((y # ys) ! i)"
    using y ys(3) by (auto simp: nth_Cons split: nat.splits)
  with y ys show ?case by simp
qed



lemma same_identity_no_email:
  assumes "get_prop c ''email'' = Inr None" and "map_of C ''email'' = None"
  shows "same_identity C c = Inr True"
  using assms by (cases c) (auto simp: same_identity_def)

lemma other_user_absent:
  "c \<noteq> JNull \<Longrightarrow> get_prop c ''user_id'' \<noteq> Inr (Some (JStr userId)) \<Longrightarrow>
   other_user userId c = Inr True"
  by (cases c) (auto simp: other_user_def)

lemma set_permission_total: "c \<noteq> JNull \<Longrightarrow> \<exists>c'. set_permission userId p c = Inr c'"
  by (cases c) (simp_all add: set_permission_def)

lemma set_permission_other:
  "set_permission userId p c = Inr c' \<Longrightarrow> get_prop c ''user_id'' \<noteq> Inr (Some (JStr userId)) \<Longrightarrow>
   c' = c"
  by (cases c) (auto simp: set_permission_def split: if_splits)

lemma set_permission_match:
  assumes "set_permission userId p c = Inr c'"
    and "get_prop c ''user_id'' = Inr (Some (JStr userId))"
  shows "\<exists>ps ps'. c = JObj ps \<and> c' = JObj ps'
           \<and> map_of ps' = (map_of ps)(''permission'' \<mapsto> JStr (permission_text p))
           \<and> map fst ps' = (if ''permission'' \<in> set (map fst ps) then map fst ps
                             else map fst ps @ [''permission''])"
proof (cases c)
  case (JObj ps)
  with assms have "c' = JObj (AList.update ''permission'' (JStr (permission_text p)) ps)"
    by (simp add: set_permission_def)
  with JObj show ?thesis
    by (simp add: update_conv' update_keys)
qed (use assms in simp_all)

section \<open>The operations on the notes table in memory\<close>

lemma memory_simps:
  "select_single memory = memory_select" "update_eq memory = memory_update"
  by (simp_all add: memory_def)

lemma generate_memory_present:
  "db noteId = Some row \<Longrightarrow>
   generateShareLink memory (Inr token) origin db noteId =
     (Returns (Some (origin @ ''/share/'' @ noteId @ ''?token='' @ token), None),
      db(noteId \<mapsto> row\<lparr>sharing_token := Some token\<rparr>))"
  by (simp add: generateShareLink_def generate_try_def memory_simps memory_update_def)

lemma generate_memory_absent:
  "db noteId = None \<Longrightarrow>
   generateShareLink memory (Inr token) origin db noteId =
     (Returns (Some (origin @ ''/share/'' @ noteId @ ''?token='' @ token), None), db)"
  by (simp add: generateShareLink_def generate_try_def memory_simps memory_update_def)

lemma validate_memory_present:
  "db noteId = Some row \<Longrightarrow>
   validateShareToken memory db noteId token = (Returns (sharing_token row = Some token), db)"
  by (simp add: validateShareToken_def validate_try_def memory_simps memory_select_def)

lemma validate_memory_absent:
  "db noteId = None \<Longrightarrow> validateShareToken memory db noteId token = (Returns False, db)"
  by (simp add: validateShareToken_def validate_try_def memory_simps memory_select_def)


lemma invite_memory_refused:
  assumes "db noteId = Some row"
    and "existing_or_empty js (Some (collaborators row)) = Inr (JArr entries)"
    and "some_js (same_identity collaborator) entries \<noteq> Inr False"
  shows "inviteCollaborator memory js now db noteId collaborator = (Returns False, db)"
  using assms
  by (auto simp: inviteCollaborator_def invite_try_def memory_simps memory_select_def
      split: sum.splits)



lemma remove_memory_written:
  assumes "db noteId = Some row"
    and "existing_of_row js (Some (collaborators row)) = Inr (JArr entries)"
    and "filter_js (other_user userId) entries = Inr kept"
  shows "removeCollaborator memory js db noteId userId =
           (Returns True,
            db(noteId \<mapsto> row\<lparr>collaborators := Some (JSON_stringify js (JArr kept))\<rparr>))"
  using assms
  by (simp add: removeCollaborator_def remove_try_def memory_simps memory_select_def
      memory_update_def)

lemma update_permission_memory_written:
  assumes "db noteId = Some row"
    and "existing_of_row js (Some (collaborators row)) = Inr (JArr entries)"
    and "map_js (set_permission userId p) entries = Inr entries'"
  shows "updateCollaboratorPermission memory js db noteId userId p =
           (Returns True,
            db(noteId \<mapsto> row\<lparr>collaborators := Some (JSON_stringify js (JArr entries'))\<rparr>))"
  using assms
  by (simp add: updateCollaboratorPermission_def update_permission_try_def memory_simps
      memory_select_def memory_update_def)

lemma json_table_simps:
  "JSON_parse (json_table table) = parse_table table"
  "JSON_stringify (json_table table) = compact_stringify"
  by (simp_all add: json_table_def)

section \<open>Share links\<close>

text \<open>
  Claim C2 (token round trip). For a note present in the store, once \<open>generateShareLink\<close> has
  returned a URL, which embeds the token \<open>T\<close> it drew, \<open>validateShareToken\<close> returns true for
  \<open>T\<close> and false for every other token.
\<close>

theorem share_token_round_trip:
  assumes present: "db noteId = Some row"
    and generated:
      "generateShareLink memory (Inr T) origin db noteId = (Returns (Some url, err), db')"
  shows "url = origin @ ''/share/'' @ noteId @ ''?token='' @ T
       \<and> validateShareToken memory db' noteId T = (Returns True, db')
       \<and> (\<forall>T'. T' \<noteq> T \<longrightarrow> validateShareToken memory db' noteId T' = (Returns False, db'))"
proof -
  from generated have url: "url = origin @ ''/share/'' @ noteId @ ''?token='' @ T"
    and db': "db' = db(noteId \<mapsto> row\<lparr>sharing_token := Some T\<rparr>)"
    using present by (simp_all add: generate_memory_present)
  have row': "db' noteId = Some (row\<lparr>sharing_token := Some T\<rparr>)"
    by (simp add: db')
  show ?thesis
    using url row' by (auto simp: validate_memory_present)
qed

theorem share_token_round_trip_witness:
  "[''n1'' \<mapsto> \<lparr>collaborators = None, sharing_token = None\<rparr>] ''n1''
     = Some \<lparr>collaborators = None, sharing_token = None\<rparr>
   \<and> generateShareLink memory (Inr ''t1'') ''https://notes.example''
       [''n1'' \<mapsto> \<lparr>collaborators = None, sharing_token = None\<rparr>] ''n1''
     = (Returns (Some ''https://notes.example/share/n1?token=t1'', None),
        [''n1'' \<mapsto> \<lparr>collaborators = None, sharing_token = Some ''t1''\<rparr>])
   \<and> validateShareToken memory
       [''n1'' \<mapsto> \<lparr>collaborators = None, sharing_token = Some ''t1''\<rparr>] ''n1'' ''t1''
     = (Returns True, [''n1'' \<mapsto> \<lparr>collaborators = None, sharing_token = Some ''t1''\<rparr>])
   \<and> validateShareToken memory
       [''n1'' \<mapsto> \<lparr>collaborators = None, sharing_token = Some ''t1''\<rparr>] ''n1'' ''t0''
     = (Returns False, [''n1'' \<mapsto> \<lparr>collaborators = None, sharing_token = Some ''t1''\<rparr>])"
  using share_token_round_trip
    [of "[''n1'' \<mapsto> \<lparr>collaborators = None, sharing_token = None\<rparr>]" "''n1''"
        "\<lparr>collaborators = None, sharing_token = None\<rparr>" "''t1''" "''https://notes.example''"
        "''https://notes.example/share/n1?token=t1''" None
        "[''n1'' \<mapsto> \<lparr>collaborators = None, sharing_token = Some ''t1''\<rparr>]"]
  by (simp add: generate_memory_present)

text \<open>
  Claim C3 (token rotation). For a note present in the store, when \<open>generateShareLink\<close>
  succeeds with token \<open>T1\<close> and then again with a different token \<open>T2\<close>, the second token has
  replaced the first: \<open>validateShareToken\<close> returns false for \<open>T1\<close> and true for \<open>T2\<close>.
\<close>

theorem share_token_rotation:
  assumes present: "db noteId = Some row"
    and first:
      "generateShareLink memory (Inr T1) origin1 db noteId = (Returns (Some url1, err1), db1)"
    and second:
      "generateShareLink memory (Inr T2) origin2 db1 noteId = (Returns (Some url2, err2), db2)"
    and different: "T2 \<noteq> T1"
  shows "validateShareToken memory db2 noteId T1 = (Returns False, db2)
       \<and> validateShareToken memory db2 noteId T2 = (Returns True, db2)"
proof -
  from first present have db1: "db1 = db(noteId \<mapsto> row\<lparr>sharing_token := Some T1\<rparr>)"
    by (simp add: generate_memory_present)
  then have row1: "db1 noteId = Some (row\<lparr>sharing_token := Some T1\<rparr>)"
    by simp
  from second row1
  have db2: "db2 = db1(noteId \<mapsto> row\<lparr>sharing_token := Some T1\<rparr>\<lparr>sharing_token := Some T2\<rparr>)"
    by (simp add: generate_memory_present)
  then have row2: "db2 noteId = Some (row\<lparr>sharing_token := Some T2\<rparr>)"
    by simp
  show ?thesis
    using row2 different by (auto simp: validate_memory_present)
qed

theorem share_token_rotation_witness:
  "[''n1'' \<mapsto> \<lparr>collaborators = None, sharing_token = None\<rparr>] ''n1''
     = Some \<lparr>collaborators = None, sharing_token = None\<rparr>
   \<and> generateShareLink memory (Inr ''t1'') ''https://notes.example''
       [''n1'' \<mapsto> \<lparr>collaborators = None, sharing_token = None\<rparr>] ''n1''
     = (Returns (Some ''https://notes.example/share/n1?token=t1'', None),
        [''n1'' \<mapsto> \<lparr>collaborators = None, sharing_token = Some ''t1''\<rparr>])
   \<and> generateShareLink memory (Inr ''t2'') ''https://notes.example''
       [''n1'' \<mapsto> \<lparr>collaborators = None, sharing_token = Some ''t1''\<rparr>] ''n1''
     = (Returns (Some ''https://notes.example/share/n1?token=t2'', None),
        [''n1'' \<mapsto> \<lparr>collaborators = None, sharing_token = Some ''t2''\<rparr>])
   \<and> ''t2'' \<noteq> ''t1''
   \<and> validateShareToken memory
       [''n1'' \<mapsto> \<lparr>collaborators = None, sharing_token = Some ''t2''\<rparr>] ''n1'' ''t1''
     = (Returns False, [''n1'' \<mapsto> \<lparr>collaborators = None, sharing_token = Some ''t2''\<rparr>])
   \<and> validateShareToken memory
       [''n1'' \<mapsto> \<lparr>collaborators = None, sharing_token = Some ''t2''\<rparr>] ''n1'' ''t2''
     = (Returns True, [''n1'' \<mapsto> \<lparr>collaborators = None, sharing_token = Some ''t2''\<rparr>])"
  using share_token_rotation
    [of "[''n1'' \<mapsto> \<lparr>collaborators = None, sharing_token = None\<rparr>]" "''n1''"
        "\<lparr>collaborators = None, sharing_token = None\<rparr>" "''t1''" "''https://notes.example''"
        "''https://notes.example/share/n1?token=t1''" None
        "[''n1'' \<mapsto> \<lparr>collaborators = None, sharing_token = Some ''t1''\<rparr>]"
        "''t2''" "''https://notes.example''" "''https://notes.example/share/n1?token=t2''" None
        "[''n1'' \<mapsto> \<lparr>collaborators = None, sharing_token = Some ''t2''\<rparr>]"]
  by (simp add: generate_memory_present)

text \<open>
  Claim C8 (share URL format). Whatever the storage client does, a URL returned by
  \<open>generateShareLink\<close> is the origin, \<^verbatim>\<open>/share/\<close>, the note id passed in, \<^verbatim>\<open>?token=\<close> and the
  token drawn in this call, and it comes with no error; on the notes table in memory the row
  of the note then holds exactly that token.
\<close>

theorem share_url_format:
  "(generateShareLink client uuid origin db noteId = (Returns (Some url, err), db') \<longrightarrow>
      (\<exists>token. uuid = Inr token
         \<and> url = origin @ ''/share/'' @ noteId @ ''?token='' @ token \<and> err = None))
   \<and> (generateShareLink memory uuid origin st noteId = (Returns (Some url, err), st')
        \<and> st noteId = Some row \<longrightarrow>
      (\<exists>token. uuid = Inr token
         \<and> url = origin @ ''/share/'' @ noteId @ ''?token='' @ token
         \<and> st' noteId = Some (row\<lparr>sharing_token := Some token\<rparr>)))"
proof (intro conjI impI)
  assume "generateShareLink client uuid origin db noteId = (Returns (Some url, err), db')"
  then show "\<exists>token. uuid = Inr token
      \<and> url = origin @ ''/share/'' @ noteId @ ''?token='' @ token \<and> err = None"
    by (auto simp: generateShareLink_def generate_try_def
             split: sum.splits prod.splits reply.splits option.splits)
next
  assume a: "generateShareLink memory uuid origin st noteId = (Returns (Some url, err), st')
      \<and> st noteId = Some row"
  show "\<exists>token. uuid = Inr token
      \<and> url = origin @ ''/share/'' @ noteId @ ''?token='' @ token
      \<and> st' noteId = Some (row\<lparr>sharing_token := Some token\<rparr>)"
  proof (cases uuid)
    case (Inl e)
    with a show ?thesis
      by (simp add: generateShareLink_def generate_try_def)
  next
    case (Inr token)
    with a show ?thesis
      by (auto simp: generate_memory_present)
  qed
qed

theorem share_url_format_witness:
  "generateShareLink memory (Inr ''t1'') ''https://notes.example''
       [''n1'' \<mapsto> \<lparr>collaborators = None, sharing_token = None\<rparr>] ''n1''
     = (Returns (Some ''https://notes.example/share/n1?token=t1'', None),
        [''n1'' \<mapsto> \<lparr>collaborators = None, sharing_token = Some ''t1''\<rparr>])
   \<and> (\<exists>token. (Inr ''t1'' :: js_error + string) = Inr token
        \<and> ''https://notes.example/share/n1?token=t1''
            = ''https://notes.example'' @ ''/share/'' @ ''n1'' @ ''?token='' @ token
        \<and> [''n1'' \<mapsto> \<lparr>collaborators = None, sharing_token = Some ''t1''\<rparr>] ''n1''
            = Some (\<lparr>collaborators = None, sharing_token = None\<rparr>\<lparr>sharing_token := Some token\<rparr>))"
  using share_url_format
    [where client = memory and uuid = "Inr ''t1''" and origin = "''https://notes.example''"
       and noteId = "''n1''" and url = "''https://notes.example/share/n1?token=t1''"
       and err = None
       and db = "[''n1'' \<mapsto> \<lparr>collaborators = None, sharing_token = None\<rparr>]"
       and db' = "[''n1'' \<mapsto> \<lparr>collaborators = None, sharing_token = Some ''t1''\<rparr>]"
       and st = "[''n1'' \<mapsto> \<lparr>collaborators = None, sharing_token = None\<rparr>]"
       and st' = "[''n1'' \<mapsto> \<lparr>collaborators = None, sharing_token = Some ''t1''\<rparr>]"
       and row = "\<lparr>collaborators = None, sharing_token = None\<rparr>"]
  by (simp add: generate_memory_present)

text \<open>
  Claim C10 (share link for a note that does not exist). For a note id without a row in the
  store, \<open>generateShareLink\<close> still returns a share URL with the drawn token and no error; the
  update matched no row, so the store is as before and \<open>validateShareToken\<close> on the returned
  pair of note id and token returns false.
\<close>

theorem share_link_for_missing_note:
  assumes "db noteId = None"
  shows "generateShareLink memory (Inr token) origin db noteId =
           (Returns (Some (origin @ ''/share/'' @ noteId @ ''?token='' @ token), None), db)
       \<and> validateShareToken memory db noteId token = (Returns False, db)"
  using assms by (simp add: generate_memory_absent validate_memory_absent)

theorem share_link_for_missing_note_witness:
  "Map.empty ''n9'' = (None :: notes_row option)
   \<and> generateShareLink memory (Inr ''t1'') ''https://notes.example'' Map.empty ''n9'' =
       (Returns (Some ''https://notes.example/share/n9?token=t1'', None), Map.empty)
   \<and> validateShareToken memory Map.empty ''n9'' ''t1'' = (Returns False, Map.empty)"
  using share_link_for_missing_note [of Map.empty "''n9''" "''t1''" "''https://notes.example''"]
  by simp

section \<open>Invitations\<close>




text \<open>
  Claim C9 (absent emails collide). For a note present in the store whose collaborator list
  has an entry without an \<^verbatim>\<open>email\<close>, inviting any collaborator that has no \<^verbatim>\<open>email\<close> either
  returns false and leaves the store as it was, whatever the \<^verbatim>\<open>user_id\<close> of the invited
  collaborator: \<^verbatim>\<open>undefined === undefined\<close> holds.
\<close>

theorem invite_without_email_rejected:
  assumes present: "db noteId = Some row"
    and decoded: "existing_or_empty js (Some (collaborators row)) = Inr (JArr entries)"
    and entry: "c \<in> set entries"
    and no_email: "get_prop c ''email'' = Inr None"
    and invited: "map_of C ''email'' = None"
  shows "inviteCollaborator memory js now db noteId C = (Returns False, db)"
proof -
  have "same_identity C c = Inr True"
    using no_email invited by (rule same_identity_no_email)
  with entry have "some_js (same_identity C) entries \<noteq> Inr False"
    by (rule some_js_hit)
  with present decoded show ?thesis
    by (rule invite_memory_refused)
qed

theorem invite_without_email_rejected_witness:
  "[''n1'' \<mapsto> note_row (Some (compact_stringify (JArr [stored_carol])))] ''n1''
     = Some (note_row (Some (compact_stringify (JArr [stored_carol]))))
   \<and> existing_or_empty (json_table [text_of (JArr [stored_carol])])
        (Some (Some (compact_stringify (JArr [stored_carol])))) = Inr (JArr [stored_carol])
   \<and> stored_carol \<in> set [stored_carol]
   \<and> get_prop stored_carol ''email'' = Inr None
   \<and> map_of example_dave ''email'' = None
   \<and> get_prop stored_carol ''user_id'' \<noteq> Inr (map_of example_dave ''user_id'')
   \<and> inviteCollaborator memory (json_table [text_of (JArr [stored_carol])])
       ''2025-01-30T06:00:00.000Z''
       [''n1'' \<mapsto> note_row (Some (compact_stringify (JArr [stored_carol])))] ''n1'' example_dave
     = (Returns False, [''n1'' \<mapsto> note_row (Some (compact_stringify (JArr [stored_carol])))])"
proof -
  let ?js = "json_table [text_of (JArr [stored_carol])]"
  let ?text = "compact_stringify (JArr [stored_carol])"
  have present: "[''n1'' \<mapsto> note_row (Some ?text)] ''n1'' = Some (note_row (Some ?text))"
    by simp
  have decoded: "existing_or_empty ?js (Some (Some ?text)) = Inr (JArr [stored_carol])"
    by (simp add: existing_or_empty_def json_table_simps parse_table_def)
  show ?thesis
    using invite_without_email_rejected
      [where db = "[''n1'' \<mapsto> note_row (Some ?text)]" and noteId = "''n1''"
         and row = "note_row (Some ?text)" and js = ?js and entries = "[stored_carol]"
         and c = stored_carol and C = example_dave and now = "''2025-01-30T06:00:00.000Z''"]
      present decoded
    by simp
qed

section \<open>Removal and permission update\<close>

text \<open>
  Claim C5 (removal of an absent user), as the code has it. For a note present in the store
  whose stored list decodes to entries none of which is \<^verbatim>\<open>null\<close> or has the \<^verbatim>\<open>user_id\<close>
  \<open>userId\<close>, \<open>removeCollaborator\<close> returns true and writes the same entries back, re-encoded:
  the column then holds the text \<^verbatim>\<open>JSON.stringify\<close> gives for them. The store is unchanged
  when the column already held that text.
\<close>

theorem remove_absent_user:
  assumes present: "db noteId = Some row"
    and decoded: "existing_of_row js (Some (collaborators row)) = Inr (JArr entries)"
    and entries: "JNull \<notin> set entries"
    and absent: "\<forall>c\<in>set entries. get_prop c ''user_id'' \<noteq> Inr (Some (JStr userId))"
  shows "removeCollaborator memory js db noteId userId =
           (Returns True,
            db(noteId \<mapsto> row\<lparr>collaborators := Some (JSON_stringify js (JArr entries))\<rparr>))
       \<and> (collaborators row = Some (JSON_stringify js (JArr entries)) \<longrightarrow>
            removeCollaborator memory js db noteId userId = (Returns True, db))"
proof -
  have "\<forall>c\<in>set entries. other_user userId c = Inr True"
    using entries absent by (auto intro: other_user_absent)
  then have kept: "filter_js (other_user userId) entries = Inr entries"
    by (rule filter_js_all)
  have written: "removeCollaborator memory js db noteId userId =
           (Returns True,
            db(noteId \<mapsto> row\<lparr>collaborators := Some (JSON_stringify js (JArr entries))\<rparr>))"
    using present decoded kept by (rule remove_memory_written)
  have "db(noteId \<mapsto> row\<lparr>collaborators := Some (JSON_stringify js (JArr entries))\<rparr>) = db"
    if "collaborators row = Some (JSON_stringify js (JArr entries))"
  proof -
    from that have "row\<lparr>collaborators := Some (JSON_stringify js (JArr entries))\<rparr> = row"
      by simp
    with present show ?thesis
      by (simp add: fun_upd_idem)
  qed
  with written show ?thesis
    by simp
qed

theorem remove_absent_user_witness:
  "[''n1'' \<mapsto> note_row (Some (compact_stringify (JArr [stored_bob])))] ''n1''
     = Some (note_row (Some (compact_stringify (JArr [stored_bob]))))
   \<and> existing_of_row (json_table [text_of (JArr [stored_bob])])
        (Some (Some (compact_stringify (JArr [stored_bob])))) = Inr (JArr [stored_bob])
   \<and> JNull \<notin> set [stored_bob]
   \<and> get_prop stored_bob ''user_id'' \<noteq> Inr (Some (JStr ''carol''))
   \<and> collaborators (note_row (Some (compact_stringify (JArr [stored_bob]))))
       = Some (JSON_stringify (json_table [text_of (JArr [stored_bob])]) (JArr [stored_bob]))
   \<and> removeCollaborator memory (json_table [text_of (JArr [stored_bob])])
       [''n1'' \<mapsto> note_row (Some (compact_stringify (JArr [stored_bob])))] ''n1'' ''carol''
     = (Returns True, [''n1'' \<mapsto> note_row (Some (compact_stringify (JArr [stored_bob])))])"
proof -
  let ?js = "json_table [text_of (JArr [stored_bob])]"
  let ?text = "compact_stringify (JArr [stored_bob])"
  have present: "[''n1'' \<mapsto> note_row (Some ?text)] ''n1'' = Some (note_row (Some ?text))"
    by simp
  have decoded: "existing_of_row ?js (Some (Some ?text)) = Inr (JArr [stored_bob])"
    by (simp add: existing_of_row_def json_table_simps parse_table_def)
  have same_text: "collaborators (note_row (Some ?text))
       = Some (JSON_stringify ?js (JArr [stored_bob]))"
    by (simp add: json_table_simps)
  show ?thesis
    using remove_absent_user
      [where db = "[''n1'' \<mapsto> note_row (Some ?text)]" and noteId = "''n1''"
         and row = "note_row (Some ?text)" and js = ?js and entries = "[stored_bob]"
         and userId = "''carol''"]
      present decoded same_text
    by simp
qed

text \<open>
  Claim C5 as stated fails: removing an absent user rewrites the column. A stored text
  \<^verbatim>\<open>[ ]\<close>, which denotes the empty list, becomes \<^verbatim>\<open>[]\<close>, and a NULL column, which the code
  takes for the empty list, becomes \<^verbatim>\<open>[]\<close> as well.
\<close>

theorem remove_absent_user_counterexample:
  "existing_of_row (json_table [(''[ ]'', JArr [])]) (Some (Some ''[ ]'')) = Inr (JArr [])
   \<and> removeCollaborator memory (json_table [(''[ ]'', JArr [])])
       [''n1'' \<mapsto> note_row (Some ''[ ]'')] ''n1'' ''bob''
     = (Returns True, [''n1'' \<mapsto> note_row (Some ''[]'')])
   \<and> Some ''[]'' \<noteq> Some ''[ ]''
   \<and> existing_of_row (json_table []) (Some None) = Inr (JArr [])
   \<and> removeCollaborator memory (json_table []) [''n1'' \<mapsto> note_row None] ''n1'' ''bob''
     = (Returns True, [''n1'' \<mapsto> note_row (Some ''[]'')])
   \<and> Some ''[]'' \<noteq> (None :: string option)"
proof -
  have spaced: "existing_of_row (json_table [(''[ ]'', JArr [])]) (Some (Some ''[ ]''))
      = Inr (JArr [])"
    by (simp add: existing_of_row_def json_table_simps parse_table_def)
  have null: "existing_of_row (json_table []) (Some None) = Inr (JArr [])"
    by (simp add: existing_of_row_def)
  have "removeCollaborator memory (json_table [(''[ ]'', JArr [])])
       [''n1'' \<mapsto> note_row (Some ''[ ]'')] ''n1'' ''bob''
     = (Returns True, [''n1'' \<mapsto> note_row (Some ''[]'')])"
    using spaced
    by (simp add: remove_memory_written [where entries = "[]" and kept = "[]"]
        json_table_simps)
  moreover have "removeCollaborator memory (json_table []) [''n1'' \<mapsto> note_row None] ''n1'' ''bob''
     = (Returns True, [''n1'' \<mapsto> note_row (Some ''[]'')])"
    using null
    by (simp add: remove_memory_written [where entries = "[]" and kept = "[]"]
        json_table_simps)
  ultimately show ?thesis
    using spaced null by simp
qed

text \<open>
  Claim C6 (permission update), as the code has it. For a note present in the store whose
  stored list decodes to entries none of which is \<^verbatim>\<open>null\<close>,
  \<open>updateCollaboratorPermission\<close> returns true and
  writes back a list of the same length and order in which every entry whose \<^verbatim>\<open>user_id\<close> is
  not \<open>userId\<close> is unchanged, and every entry whose \<^verbatim>\<open>user_id\<close> is \<open>userId\<close> is the same
  object with \<^verbatim>\<open>permission\<close> set to \<open>p\<close>: all its other properties and the order of its
  properties are kept. When no entry has the \<^verbatim>\<open>user_id\<close> \<open>userId\<close>, the list is unchanged.
\<close>

theorem update_permission_frame:
  assumes present: "db noteId = Some row"
    and decoded: "existing_of_row js (Some (collaborators row)) = Inr (JArr entries)"
    and entries: "JNull \<notin> set entries"
  shows "\<exists>entries'.
           updateCollaboratorPermission memory js db noteId userId p =
             (Returns True,
              db(noteId \<mapsto> row\<lparr>collaborators := Some (JSON_stringify js (JArr entries'))\<rparr>))
         \<and> length entries' = length entries
         \<and> (\<forall>i<length entries.
               (get_prop (entries ! i) ''user_id'' \<noteq> Inr (Some (JStr userId)) \<longrightarrow>
                  entries' ! i = entries ! i)
             \<and> (get_prop (entries ! i) ''user_id'' = Inr (Some (JStr userId)) \<longrightarrow>
                  (\<exists>ps ps'. entries ! i = JObj ps \<and> entries' ! i = JObj ps'
                     \<and> map_of ps' = (map_of ps)(''permission'' \<mapsto> JStr (permission_text p))
                     \<and> map fst ps' = (if ''permission'' \<in> set (map fst ps) then map fst ps
                                       else map fst ps @ [''permission'']))))
         \<and> ((\<forall>c\<in>set entries. get_prop c ''user_id'' \<noteq> Inr (Some (JStr userId))) \<longrightarrow>
               entries' = entries)"
proof -
  have "\<forall>c\<in>set entries. \<exists>c'. set_permission userId p c = Inr c'"
    using entries by (auto intro: set_permission_total)
  then obtain entries' where mapped: "map_js (set_permission userId p) entries = Inr entries'"
    and len: "length entries' = length entries"
    and each: "\<forall>i<length entries. set_permission userId p (entries ! i) = Inr (entries' ! i)"
    using map_js_pointwise [of entries "set_permission userId p"] by blast
  have written: "updateCollaboratorPermission memory js db noteId userId p =
             (Returns True,
              db(noteId \<mapsto> row\<lparr>collaborators := Some (JSON_stringify js (JArr entries'))\<rparr>))"
    using present decoded mapped by (rule update_permission_memory_written)
  have others: "entries' ! i = entries ! i"
    if "i < length entries" "get_prop (entries ! i) ''user_id'' \<noteq> Inr (Some (JStr userId))" for i
    using that each by (auto dest: set_permission_other)
  have target: "\<exists>ps ps'. entries ! i = JObj ps \<and> entries' ! i = JObj ps'
                     \<and> map_of ps' = (map_of ps)(''permission'' \<mapsto> JStr (permission_text p))
                     \<and> map fst ps' = (if ''permission'' \<in> set (map fst ps) then map fst ps
                                       else map fst ps @ [''permission''])"
    if "i < length entries" "get_prop (entries ! i) ''user_id'' = Inr (Some (JStr userId))" for i
    using that each set_permission_match [of userId p "entries ! i" "entries' ! i"] by blast
  have unchanged: "entries' = entries"
    if "\<forall>c\<in>set entries. get_prop c ''user_id'' \<noteq> Inr (Some (JStr userId))"
  proof (rule nth_equalityI)
    show "length entries' = length entries" by (rule len)
  next
    fix i assume "i < length entries'"
    with len that show "entries' ! i = entries ! i"
      by (auto intro: others)
  qed
  show ?thesis
    using written len others target unchanged by blast
qed

theorem update_permission_frame_witness:
  "[''n1'' \<mapsto> note_row (Some (compact_stringify (JArr [stored_bob, stored_carol])))] ''n1''
     = Some (note_row (Some (compact_stringify (JArr [stored_bob, stored_carol]))))
   \<and> existing_of_row (json_table [text_of (JArr [stored_bob, stored_carol])])
        (Some (Some (compact_stringify (JArr [stored_bob, stored_carol]))))
       = Inr (JArr [stored_bob, stored_carol])
   \<and> JNull \<notin> set [stored_bob, stored_carol]
   \<and> get_prop ([stored_bob, stored_carol] ! 0) ''user_id'' = Inr (Some (JStr ''bob''))
   \<and> get_prop ([stored_bob, stored_carol] ! 1) ''user_id'' \<noteq> Inr (Some (JStr ''bob''))
   \<and> updateCollaboratorPermission memory (json_table [text_of (JArr [stored_bob, stored_carol])])
       [''n1'' \<mapsto> note_row (Some (compact_stringify (JArr [stored_bob, stored_carol])))]
       ''n1'' ''bob'' Edit
     = (Returns True,
        [''n1'' \<mapsto> note_row (Some (compact_stringify (JArr [stored_bob_edit, stored_carol])))])
   \<and> get_prop stored_bob ''user_id'' \<noteq> Inr (Some (JStr ''zed''))
   \<and> get_prop stored_carol ''user_id'' \<noteq> Inr (Some (JStr ''zed''))
   \<and> updateCollaboratorPermission memory (json_table [text_of (JArr [stored_bob, stored_carol])])
       [''n1'' \<mapsto> note_row (Some (compact_stringify (JArr [stored_bob, stored_carol])))]
       ''n1'' ''zed'' Edit
     = (Returns True,
        [''n1'' \<mapsto> note_row (Some (compact_stringify (JArr [stored_bob, stored_carol])))])"
proof -
  let ?js = "json_table [text_of (JArr [stored_bob, stored_carol])]"
  let ?text = "compact_stringify (JArr [stored_bob, stored_carol])"
  have present: "[''n1'' \<mapsto> note_row (Some ?text)] ''n1'' = Some (note_row (Some ?text))"
    by simp
  have decoded: "existing_of_row ?js (Some (Some ?text)) = Inr (JArr [stored_bob, stored_carol])"
    by (simp add: existing_of_row_def json_table_simps parse_table_def)
  have mapped: "map_js (set_permission ''bob'' Edit) [stored_bob, stored_carol]
      = Inr [stored_bob_edit, stored_carol]"
    by (simp add: set_permission_def)
  have result: "updateCollaboratorPermission memory ?js [''n1'' \<mapsto> note_row (Some ?text)]
       ''n1'' ''bob'' Edit
     = (Returns True,
        [''n1'' \<mapsto> note_row (Some (compact_stringify (JArr [stored_bob_edit, stored_carol])))])"
    using update_permission_memory_written
      [where db = "[''n1'' \<mapsto> note_row (Some ?text)]" and noteId = "''n1''"
         and row = "note_row (Some ?text)" and js = ?js
         and entries = "[stored_bob, stored_carol]" and userId = "''bob''" and p = Edit
         and entries' = "[stored_bob_edit, stored_carol]"]
      present decoded mapped
    by (simp add: json_table_simps)
  have kept: "map_js (set_permission ''zed'' Edit) [stored_bob, stored_carol]
      = Inr [stored_bob, stored_carol]"
    by (simp add: set_permission_def)
  have same: "updateCollaboratorPermission memory ?js [''n1'' \<mapsto> note_row (Some ?text)]
       ''n1'' ''zed'' Edit
     = (Returns True, [''n1'' \<mapsto> note_row (Some ?text)])"
    using update_permission_memory_written
      [where db = "[''n1'' \<mapsto> note_row (Some ?text)]" and noteId = "''n1''"
         and row = "note_row (Some ?text)" and js = ?js
         and entries = "[stored_bob, stored_carol]" and userId = "''zed''" and p = Edit
         and entries' = "[stored_bob, stored_carol]"]
      present decoded kept
    by (simp add: json_table_simps)
  show ?thesis
    using update_permission_frame
      [where db = "[''n1'' \<mapsto> note_row (Some ?text)]" and noteId = "''n1''"
         and row = "note_row (Some ?text)" and js = ?js
         and entries = "[stored_bob, stored_carol]" and userId = "''bob''" and p = Edit]
      update_permission_frame
      [where db = "[''n1'' \<mapsto> note_row (Some ?text)]" and noteId = "''n1''"
         and row = "note_row (Some ?text)" and js = ?js
         and entries = "[stored_bob, stored_carol]" and userId = "''zed''" and p = Edit]
      present decoded result same
    by simp
qed

section \<open>Failures stay inside the operations\<close>

lemma catch_false_returns: "\<exists>b d. catch_false x = (Returns b, d)"
  by (cases x rule: catch_false.cases) auto

lemma catch_link_returns: "\<exists>r d. catch_link x = (Returns r, d)"
  by (cases x rule: catch_link.cases) auto

lemma invite_fetch_failed:
  "fetch_failed client db Collaborators noteId \<Longrightarrow>
   inviteCollaborator client js now db noteId collaborator = (Returns False, db)"
  by (auto simp: fetch_failed_def inviteCollaborator_def invite_try_def split: reply.splits)

lemma remove_fetch_failed:
  "fetch_failed client db Collaborators noteId \<Longrightarrow>
   removeCollaborator client js db noteId userId = (Returns False, db)"
  by (auto simp: fetch_failed_def removeCollaborator_def remove_try_def split: reply.splits)

lemma update_permission_fetch_failed:
  "fetch_failed client db Collaborators noteId \<Longrightarrow>
   updateCollaboratorPermission client js db noteId userId p = (Returns False, db)"
  by (auto simp: fetch_failed_def updateCollaboratorPermission_def update_permission_try_def
      split: reply.splits)

lemma validate_fetch_failed:
  "fetch_failed client db Sharing_token noteId \<Longrightarrow>
   validateShareToken client db noteId token = (Returns False, db)"
  by (auto simp: fetch_failed_def validateShareToken_def validate_try_def
      split: reply.splits option.splits)

lemma generate_write_failed:
  "write_failed client db Sharing_token token noteId \<Longrightarrow>
   \<exists>e. generateShareLink client (Inr token) origin db noteId =
         (Returns (None, Some e), fst (update_eq client db Sharing_token token noteId))"
  by (cases "update_eq client db Sharing_token token noteId")
     (auto simp: write_failed_def generateShareLink_def generate_try_def split: reply.splits)

lemma write_failed_result:
  assumes "write_failed client db col v noteId"
  shows "fst (catch_false
           (case update_eq client db col v noteId of
              (db', Rejected e) \<Rightarrow> (Throws e, db')
            | (db', Settled d (Some e)) \<Rightarrow> (Returns False, db')
            | (db', Settled d None) \<Rightarrow> (Returns True, db'))) = Returns False"
  using assms
  by (cases "update_eq client db col v noteId")
     (auto simp: write_failed_def split: reply.splits option.splits)

lemma invite_write_failed:
  assumes "\<forall>v. write_failed client db Collaborators v noteId"
  shows "fst (inviteCollaborator client js now db noteId collaborator) = Returns False"
  using assms write_failed_result [of client db Collaborators _ noteId]
  by (auto simp: inviteCollaborator_def invite_try_def Let_def
      split: reply.splits option.splits sum.splits)

lemma remove_write_failed:
  assumes "\<forall>v. write_failed client db Collaborators v noteId"
  shows "fst (removeCollaborator client js db noteId userId) = Returns False"
  using assms write_failed_result [of client db Collaborators _ noteId]
  by (auto simp: removeCollaborator_def remove_try_def
      split: reply.splits option.splits sum.splits)

lemma update_permission_write_failed:
  assumes "\<forall>v. write_failed client db Collaborators v noteId"
  shows "fst (updateCollaboratorPermission client js db noteId userId p) = Returns False"
  using assms write_failed_result [of client db Collaborators _ noteId]
  by (auto simp: updateCollaboratorPermission_def update_permission_try_def
      split: reply.splits option.splits sum.splits)

lemma invite_malformed:
  assumes "select_single client db Collaborators noteId = Settled (Some (Some raw)) None"
    and "raw \<noteq> []" and "malformed js raw"
  shows "inviteCollaborator client js now db noteId collaborator = (Returns False, db)"
proof (cases "JSON_parse js raw")
  case (Inl e)
  with assms show ?thesis
    by (simp add: inviteCollaborator_def invite_try_def existing_or_empty_def)
next
  case (Inr v)
  show ?thesis
  proof (cases v)
    case (JArr xs)
    with Inr assms have "JNull \<in> set xs"
      by (simp add: malformed_def)
    then have "some_js (same_identity collaborator) xs \<noteq> Inr False"
      by (rule some_js_null)
    with JArr Inr assms show ?thesis
      by (auto simp: inviteCollaborator_def invite_try_def existing_or_empty_def
          split: sum.splits)
  qed (use Inr assms in \<open>simp_all add: inviteCollaborator_def invite_try_def existing_or_empty_def\<close>)
qed

lemma remove_malformed:
  assumes "select_single client db Collaborators noteId = Settled (Some (Some raw)) None"
    and "raw \<noteq> []" and "malformed js raw"
  shows "removeCollaborator client js db noteId userId = (Returns False, db)"
proof (cases "JSON_parse js raw")
  case (Inl e)
  with assms show ?thesis
    by (simp add: removeCollaborator_def remove_try_def existing_of_row_def)
next
  case (Inr v)
  show ?thesis
  proof (cases v)
    case (JArr xs)
    with Inr assms have "JNull \<in> set xs"
      by (simp add: malformed_def)
    then obtain e where "filter_js (other_user userId) xs = Inl e"
      using filter_js_null by blast
    with JArr Inr assms show ?thesis
      by (simp add: removeCollaborator_def remove_try_def existing_of_row_def)
  qed (use Inr assms in \<open>simp_all add: removeCollaborator_def remove_try_def existing_of_row_def\<close>)
qed

lemma update_permission_malformed:
  assumes "select_single client db Collaborators noteId = Settled (Some (Some raw)) None"
    and "raw \<noteq> []" and "malformed js raw"
  shows "updateCollaboratorPermission client js db noteId userId p = (Returns False, db)"
proof (cases "JSON_parse js raw")
  case (Inl e)
  with assms show ?thesis
    by (simp add: updateCollaboratorPermission_def update_permission_try_def existing_of_row_def)
next
  case (Inr v)
  show ?thesis
  proof (cases v)
    case (JArr xs)
    with Inr assms have "JNull \<in> set xs"
      by (simp add: malformed_def)
    then obtain e where "map_js (set_permission userId p) xs = Inl e"
      using map_js_null by blast
    with JArr Inr assms show ?thesis
      by (simp add: updateCollaboratorPermission_def update_permission_try_def
          existing_of_row_def)
  qed (use Inr assms in \<open>simp_all add: updateCollaboratorPermission_def
        update_permission_try_def existing_of_row_def\<close>)
qed

text \<open>
  Claim C7 (no exception leaves an operation). For every storage client, runtime and input,
  each of the five operations returns a value. A failed fetch makes the operations that
  fetch return false; failed writes make the operations that write return false, and
  \<open>generateShareLink\<close> return no URL together with the error; \<open>generateShareLink\<close> also
  returns no URL and the error when no token can be drawn; and a malformed stored list makes
  the three list operations return false with the store untouched.
\<close>

theorem registry_never_throws:
  "((\<exists>b d. inviteCollaborator client js now db noteId collaborator = (Returns b, d))
    \<and> (\<exists>b d. removeCollaborator client js db noteId userId = (Returns b, d))
    \<and> (\<exists>b d. updateCollaboratorPermission client js db noteId userId p = (Returns b, d))
    \<and> (\<exists>r d. generateShareLink client uuid origin db noteId = (Returns r, d))
    \<and> (\<exists>b d. validateShareToken client db noteId token = (Returns b, d)))
   \<and> (fetch_failed client db Collaborators noteId \<longrightarrow>
        inviteCollaborator client js now db noteId collaborator = (Returns False, db)
      \<and> removeCollaborator client js db noteId userId = (Returns False, db)
      \<and> updateCollaboratorPermission client js db noteId userId p = (Returns False, db))
   \<and> (fetch_failed client db Sharing_token noteId \<longrightarrow>
        validateShareToken client db noteId token = (Returns False, db))
   \<and> ((\<forall>v. write_failed client db Collaborators v noteId) \<longrightarrow>
        fst (inviteCollaborator client js now db noteId collaborator) = Returns False
      \<and> fst (removeCollaborator client js db noteId userId) = Returns False
      \<and> fst (updateCollaboratorPermission client js db noteId userId p) = Returns False)
   \<and> (write_failed client db Sharing_token token noteId \<longrightarrow>
        (\<exists>e. generateShareLink client (Inr token) origin db noteId =
               (Returns (None, Some e), fst (update_eq client db Sharing_token token noteId))))
   \<and> (generateShareLink client (Inl e0) origin db noteId = (Returns (None, Some e0), db))
   \<and> (select_single client' db' Collaborators noteId' = Settled (Some (Some raw)) None
        \<and> raw \<noteq> [] \<and> malformed js' raw \<longrightarrow>
        inviteCollaborator client' js' now db' noteId' collaborator = (Returns False, db')
      \<and> removeCollaborator client' js' db' noteId' userId = (Returns False, db')
      \<and> updateCollaboratorPermission client' js' db' noteId' userId p = (Returns False, db'))"
proof -
  have returns:
    "(\<exists>b d. inviteCollaborator client js now db noteId collaborator = (Returns b, d))
    \<and> (\<exists>b d. removeCollaborator client js db noteId userId = (Returns b, d))
    \<and> (\<exists>b d. updateCollaboratorPermission client js db noteId userId p = (Returns b, d))
    \<and> (\<exists>r d. generateShareLink client uuid origin db noteId = (Returns r, d))
    \<and> (\<exists>b d. validateShareToken client db noteId token = (Returns b, d))"
    unfolding inviteCollaborator_def removeCollaborator_def updateCollaboratorPermission_def
      generateShareLink_def validateShareToken_def
    by (intro conjI catch_false_returns catch_link_returns)
  have fetch_list:
    "fetch_failed client db Collaborators noteId \<longrightarrow>
        inviteCollaborator client js now db noteId collaborator = (Returns False, db)
      \<and> removeCollaborator client js db noteId userId = (Returns False, db)
      \<and> updateCollaboratorPermission client js db noteId userId p = (Returns False, db)"
    by (simp add: invite_fetch_failed remove_fetch_failed update_permission_fetch_failed)
  have fetch_token:
    "fetch_failed client db Sharing_token noteId \<longrightarrow>
        validateShareToken client db noteId token = (Returns False, db)"
    by (simp add: validate_fetch_failed)
  have write_list:
    "(\<forall>v. write_failed client db Collaborators v noteId) \<longrightarrow>
        fst (inviteCollaborator client js now db noteId collaborator) = Returns False
      \<and> fst (removeCollaborator client js db noteId userId) = Returns False
      \<and> fst (updateCollaboratorPermission client js db noteId userId p) = Returns False"
    by (simp add: invite_write_failed remove_write_failed update_permission_write_failed)
  have write_token:
    "write_failed client db Sharing_token token noteId \<longrightarrow>
        (\<exists>e. generateShareLink client (Inr token) origin db noteId =
               (Returns (None, Some e), fst (update_eq client db Sharing_token token noteId)))"
    by (simp add: generate_write_failed)
  have no_uuid:
    "generateShareLink client (Inl e0) origin db noteId = (Returns (None, Some e0), db)"
    by (simp add: generateShareLink_def generate_try_def)
  have bad_text:
    "select_single client' db' Collaborators noteId' = Settled (Some (Some raw)) None
        \<and> raw \<noteq> [] \<and> malformed js' raw \<longrightarrow>
        inviteCollaborator client' js' now db' noteId' collaborator = (Returns False, db')
      \<and> removeCollaborator client' js' db' noteId' userId = (Returns False, db')
      \<and> updateCollaboratorPermission client' js' db' noteId' userId p = (Returns False, db')"
    by (simp add: invite_malformed remove_malformed update_permission_malformed)
  show ?thesis
    by (rule conjI [OF returns conjI [OF fetch_list conjI [OF fetch_token
          conjI [OF write_list conjI [OF write_token conjI [OF no_uuid bad_text]]]]]])
qed

theorem registry_never_throws_witness:
  "fetch_failed unreachable (Map.empty :: store) Collaborators ''n1''
   \<and> fetch_failed unreachable (Map.empty :: store) Sharing_token ''n1''
   \<and> (\<forall>v. write_failed unreachable (Map.empty :: store) Collaborators v ''n1'')
   \<and> write_failed unreachable (Map.empty :: store) Sharing_token ''t1'' ''n1''
   \<and> select_single memory [''n2'' \<mapsto> note_row (Some ''{oops'')] Collaborators ''n2''
       = Settled (Some (Some ''{oops'')) None
   \<and> ''{oops'' \<noteq> []
   \<and> malformed (json_table []) ''{oops''
   \<and> inviteCollaborator unreachable (json_table []) ''2025-01-30T06:00:00.000Z''
       (Map.empty :: store) ''n1'' example_bob = (Returns False, Map.empty)
   \<and> removeCollaborator unreachable (json_table []) (Map.empty :: store) ''n1'' ''bob''
       = (Returns False, Map.empty)
   \<and> updateCollaboratorPermission unreachable (json_table []) (Map.empty :: store) ''n1''
       ''bob'' Edit = (Returns False, Map.empty)
   \<and> validateShareToken unreachable (Map.empty :: store) ''n1'' ''t1''
       = (Returns False, Map.empty)
   \<and> generateShareLink unreachable (Inr ''t1'') ''https://notes.example'' (Map.empty :: store)
       ''n1'' = (Returns (None, Some (OtherError ''Failed to fetch'')), Map.empty)
   \<and> inviteCollaborator memory (json_table []) ''2025-01-30T06:00:00.000Z''
       [''n2'' \<mapsto> note_row (Some ''{oops'')] ''n2'' example_bob
       = (Returns False, [''n2'' \<mapsto> note_row (Some ''{oops'')])
   \<and> removeCollaborator memory (json_table []) [''n2'' \<mapsto> note_row (Some ''{oops'')] ''n2''
       ''bob'' = (Returns False, [''n2'' \<mapsto> note_row (Some ''{oops'')])
   \<and> updateCollaboratorPermission memory (json_table []) [''n2'' \<mapsto> note_row (Some ''{oops'')]
       ''n2'' ''bob'' Edit = (Returns False, [''n2'' \<mapsto> note_row (Some ''{oops'')])"
proof -
  have fetches: "fetch_failed unreachable (Map.empty :: store) col ''n1''" for col
    by (simp add: fetch_failed_def unreachable_def)
  have writes: "write_failed unreachable (Map.empty :: store) col v ''n1''" for col v
    by (simp add: write_failed_def unreachable_def)
  have stored: "select_single memory [''n2'' \<mapsto> note_row (Some ''{oops'')] Collaborators ''n2''
       = Settled (Some (Some ''{oops'')) None"
    by (simp add: memory_simps memory_select_def)
  have bad: "malformed (json_table []) ''{oops''"
    by (simp add: malformed_def json_table_simps parse_table_def)
  have link: "generateShareLink unreachable (Inr ''t1'') ''https://notes.example''
       (Map.empty :: store) ''n1'' = (Returns (None, Some (OtherError ''Failed to fetch'')), Map.empty)"
    by (simp add: generateShareLink_def generate_try_def unreachable_def)
  show ?thesis
    using registry_never_throws
      [where client = "unreachable :: store supabase" and db = "Map.empty :: store"
         and noteId = "''n1''" and js = "json_table []" and now = "''2025-01-30T06:00:00.000Z''"
         and collaborator = example_bob and userId = "''bob''" and p = Edit
         and token = "''t1''" and origin = "''https://notes.example''"
         and client' = memory and db' = "[''n2'' \<mapsto> note_row (Some ''{oops'')]"
         and noteId' = "''n2''" and js' = "json_table []" and raw = "''{oops''"]
      fetches writes stored bad link
    by simp
qed

text \<open>
  Claim C6 as stated fails: \<open>updateCollaboratorPermission\<close> does not return true for every
  note present in the store. When the stored text is not JSON (here \<^verbatim>\<open>{oops\<close>), or is a list
  with a \<^verbatim>\<open>null\<close> entry (here \<^verbatim>\<open>[null]\<close>), the operation raises inside its \<^verbatim>\<open>try\<close> block,
  returns false and writes nothing.
\<close>

theorem update_permission_frame_counterexample:
  "[''n3'' \<mapsto> note_row (Some ''{oops'')] ''n3'' = Some (note_row (Some ''{oops''))
   \<and> JSON_parse (json_table []) ''{oops'' = Inl SyntaxError
   \<and> updateCollaboratorPermission memory (json_table [])
       [''n3'' \<mapsto> note_row (Some ''{oops'')] ''n3'' ''bob'' Edit
     = (Returns False, [''n3'' \<mapsto> note_row (Some ''{oops'')])
   \<and> [''n4'' \<mapsto> note_row (Some ''[null]'')] ''n4'' = Some (note_row (Some ''[null]''))
   \<and> JSON_parse (json_table [(''[null]'', JArr [JNull])]) ''[null]'' = Inr (JArr [JNull])
   \<and> updateCollaboratorPermission memory (json_table [(''[null]'', JArr [JNull])])
       [''n4'' \<mapsto> note_row (Some ''[null]'')] ''n4'' ''bob'' Edit
     = (Returns False, [''n4'' \<mapsto> note_row (Some ''[null]'')])
   \<and> (Returns False :: bool completion) \<noteq> Returns True"
proof -
  have broken: "JSON_parse (json_table []) ''{oops'' = Inl SyntaxError"
    by (simp add: json_table_simps parse_table_def)
  have null_entry:
    "JSON_parse (json_table [(''[null]'', JArr [JNull])]) ''[null]'' = Inr (JArr [JNull])"
    by (simp add: json_table_simps parse_table_def)
  have "updateCollaboratorPermission memory (json_table [])
       [''n3'' \<mapsto> note_row (Some ''{oops'')] ''n3'' ''bob'' Edit
     = (Returns False, [''n3'' \<mapsto> note_row (Some ''{oops'')])"
    using broken
    by (simp add: update_permission_malformed [where raw = "''{oops''"] malformed_def
        memory_simps memory_select_def)
  moreover have "updateCollaboratorPermission memory (json_table [(''[null]'', JArr [JNull])])
       [''n4'' \<mapsto> note_row (Some ''[null]'')] ''n4'' ''bob'' Edit
     = (Returns False, [''n4'' \<mapsto> note_row (Some ''[null]'')])"
    using null_entry
    by (simp add: update_permission_malformed [where raw = "''[null]''"] malformed_def
        memory_simps memory_select_def)
  ultimately show ?thesis
    using broken null_entry by simp
qed

section \<open>Deleting entries\<close>

lemma listed_edit_listed: "listed_edit jsonb_out uid n \<Longrightarrow> listed jsonb_out uid n"
  by (auto simp: listed_edit_def listed_def list_ex_iff)

lemma owner_visible:
  "n \<in> set ns \<Longrightarrow> notes_user_id n = Some uid \<Longrightarrow> n \<in> set (visible_notes jsonb_out uid ns)"
  by (simp add: visible_notes_def users_can_view_notes_def)

lemma editor_visible:
  "n \<in> set ns \<Longrightarrow> listed_edit jsonb_out uid n \<Longrightarrow> n \<in> set (visible_notes jsonb_out uid ns)"
  by (simp add: visible_notes_def users_can_view_notes_def listed_edit_listed)

lemma visible_subset: "n \<in> set (visible_notes jsonb_out uid ns) \<Longrightarrow> n \<in> set ns"
  by (simp add: visible_notes_def)

lemma find_primary_key:
  "distinct (map notes_id ns) \<Longrightarrow> n \<in> set ns \<Longrightarrow>
   find (\<lambda>m. notes_id m = notes_id n) ns = Some n"
  by (induction ns) (auto simp: image_iff)

lemma parent_note_iff:
  assumes "distinct (map notes_id ns)"
  shows "parent_note ns entry = Some n \<longleftrightarrow>
         n \<in> set ns \<and> Some (notes_id n) = note_entries_note_id entry"
proof
  assume "parent_note ns entry = Some n"
  then show "n \<in> set ns \<and> Some (notes_id n) = note_entries_note_id entry"
    by (auto simp: parent_note_def find_Some_iff)
next
  assume a: "n \<in> set ns \<and> Some (notes_id n) = note_entries_note_id entry"
  then have "note_entries_note_id entry = Some (notes_id n)" by simp
  with a assms show "parent_note ns entry = Some n"
    by (simp add: parent_note_def find_primary_key)
qed

text \<open>
  Claim C4 (entry deletion is owner-only). With \<^verbatim>\<open>id\<close> the primary key of \<^verbatim>\<open>notes\<close>, the
  DELETE policy of \<^verbatim>\<open>note_entries\<close> admits an entry for a caller exactly when the entry has a
  parent note and the caller is its \<^verbatim>\<open>user_id\<close>. A caller who is not the owner of the parent
  note but is listed in its collaborators with \<^verbatim>\<open>permission = 'edit'\<close> passes the UPDATE policy
  and is refused by the DELETE policy.
\<close>

theorem entry_delete_owner_only:
  assumes primary_key: "distinct (map notes_id notes)"
  shows "(users_can_delete_entries jsonb_out notes uid entry \<longleftrightarrow>
            (\<exists>n. parent_note notes entry = Some n \<and> notes_user_id n = Some uid))
       \<and> (\<forall>n. parent_note notes entry = Some n \<and> notes_user_id n \<noteq> Some uid
               \<and> listed_edit jsonb_out uid n \<longrightarrow>
             users_can_update_entries jsonb_out notes uid entry
           \<and> \<not> users_can_delete_entries jsonb_out notes uid entry)"
proof -
  note parent = parent_note_iff [OF primary_key]
  have delete: "users_can_delete_entries jsonb_out notes uid entry \<longleftrightarrow>
            (\<exists>n. parent_note notes entry = Some n \<and> notes_user_id n = Some uid)"
    by (auto simp: users_can_delete_entries_def list_ex_iff parent
        intro: owner_visible dest: visible_subset)
  have editor: "users_can_update_entries jsonb_out notes uid entry
           \<and> \<not> users_can_delete_entries jsonb_out notes uid entry"
    if n: "parent_note notes entry = Some n" "notes_user_id n \<noteq> Some uid"
      "listed_edit jsonb_out uid n" for n
  proof
    from n have "n \<in> set (visible_notes jsonb_out uid notes)"
      by (simp add: parent editor_visible)
    with n show "users_can_update_entries jsonb_out notes uid entry"
      by (auto simp: users_can_update_entries_def list_ex_iff parent)
    from n show "\<not> users_can_delete_entries jsonb_out notes uid entry"
      by (auto simp: delete)
  qed
  from delete editor show ?thesis
    by blast
qed

theorem entry_delete_owner_only_witness:
  "distinct (map notes_id [alice_note])
   \<and> parent_note [alice_note] alice_entry = Some alice_note
   \<and> notes_user_id alice_note \<noteq> Some ''bob''
   \<and> listed_edit compact_stringify ''bob'' alice_note
   \<and> users_can_update_entries compact_stringify [alice_note] ''bob'' alice_entry
   \<and> \<not> users_can_delete_entries compact_stringify [alice_note] ''bob'' alice_entry
   \<and> users_can_delete_entries compact_stringify [alice_note] ''alice'' alice_entry"
proof -
  have pk: "distinct (map notes_id [alice_note])"
    by simp
  have parent: "parent_note [alice_note] alice_entry = Some alice_note"
    by (simp add: parent_note_def)
  have editor: "listed_edit compact_stringify ''bob'' alice_note"
    by (simp add: listed_edit_def)
  have owner: "users_can_delete_entries compact_stringify [alice_note] ''alice'' alice_entry"
    by (simp add: users_can_delete_entries_def visible_notes_def users_can_view_notes_def)
  show ?thesis
    using entry_delete_owner_only [OF pk, of compact_stringify "''bob''" alice_entry]
      parent editor owner
    by simp
qed

end
